theory Spec2Isabelle
  imports Main "HOL-Library.Word"
begin

section \<open>Data model of the Mattermost adapter\<close>

text \<open>
  The repository holds two versions of \<^verbatim>\<open>pkg/bothandler/mattermost.go\<close>: the first talks
  to the server with \<^verbatim>\<open>net/http\<close> directly, the second through the Mattermost client
  library. They are called version 1 and version 2 here, in the order of the file.
  Definitions that the two versions share word for word, and that call nothing that
  differs, are given once; the others carry the suffix \<open>_v1\<close> or \<open>_v2\<close>.
  Go strings are byte sequences and are modelled as \<^typ>\<open>string\<close>.
\<close>

record MattermostUser =
  Id_user :: string
  Username :: string
  Email :: string

record MattermostPost =
  Id_post :: string
  ChannelId :: string
  UserId :: string
  Message :: string
  FileIds :: "string list"
  RootId :: string

text \<open>A value of type \<^verbatim>\<open>interface{}\<close> in the event's data: a string, or anything else.\<close>

datatype json_any = Json_string string | Json_other

record MattermostWebSocketEvent =
  Event :: string
  Data :: "string \<rightharpoonup> json_any"

text \<open>
  A Go channel that is not nil is open or closed; the websocket connection likewise.
  A nil channel or connection is \<open>None\<close> in the adapter.
\<close>

datatype chan_state = Chan_open | Chan_closed

datatype conn_state = Conn_open | Conn_closed

text \<open>
  The adapter. The type of the client differs between the versions
  (\<^verbatim>\<open>*http.Client\<close>, \<^verbatim>\<open>*model.Client4\<close>) and is a parameter; pointer fields are options.
  The read/write lock has no content in a sequential model and is left out.
\<close>

record 'c MattermostMessagePlatform =
  Client :: "'c option"
  WebSocketConn :: "conn_state option"
  User :: "MattermostUser option"
  ChannelId_map :: "string \<rightharpoonup> string"
  KnownUsers :: "string \<rightharpoonup> MattermostUser"
  DefaultChannel :: string
  TeamId :: string
  BotToken :: string
  ServerURL :: string
  stopChan :: "chan_state option"

text \<open>
  The struct literal that \<^verbatim>\<open>NewMessagePlatformFromMattermost\<close> returns on success, in
  both versions: the client and the bot user are set, the stop channel is freshly made,
  there is no websocket connection yet and no default channel.
\<close>

definition NewMessagePlatformFromMattermost_value ::
  "'c \<Rightarrow> MattermostUser \<Rightarrow> string \<Rightarrow> string \<Rightarrow> string \<Rightarrow> 'c MattermostMessagePlatform" where
  "NewMessagePlatformFromMattermost_value client user teamId mattermostBotToken mattermostURL =
     \<lparr>Client = Some client,
      WebSocketConn = None,
      User = Some user,
      ChannelId_map = Map.empty,
      KnownUsers = Map.empty,
      DefaultChannel = '''',
      TeamId = teamId,
      BotToken = mattermostBotToken,
      ServerURL = mattermostURL,
      stopChan = Some Chan_open\<rparr>"

section \<open>Panics\<close>

datatype 'a outcome = Returned 'a | Panicked string

section \<open>Close\<close>

text \<open>Go's builtin \<^verbatim>\<open>close\<close> on a channel that is not nil: closing a closed channel panics.\<close>

definition close_chan :: "chan_state \<Rightarrow> chan_state outcome" where
  "close_chan ch =
     (case ch of
        Chan_open \<Rightarrow> Returned Chan_closed
      | Chan_closed \<Rightarrow> Panicked ''close of closed channel'')"

text \<open>
  \<^verbatim>\<open>(*websocket.Conn).Close\<close> closes the underlying connection; on a closed connection
  it returns an error, which \<^verbatim>\<open>Close\<close> discards.
\<close>

definition Conn_Close :: "conn_state \<Rightarrow> conn_state" where
  "Conn_Close c = Conn_closed"

text \<open>
  \<^verbatim>\<open>
  func (s *MattermostMessagePlatform) Close() {
      if s.stopChan != nil { close(s.stopChan) }
      if s.WebSocketConn != nil { s.WebSocketConn.Close() }
  }
  \<close>
  The same text in both versions. The adapter is mutated in place; the model returns it.
\<close>

definition Close :: "'c MattermostMessagePlatform \<Rightarrow> 'c MattermostMessagePlatform outcome" where
  "Close s =
     (case (case stopChan s of
              None \<Rightarrow> Returned s
            | Some ch \<Rightarrow>
                (case close_chan ch of
                   Panicked m \<Rightarrow> Panicked m
                 | Returned ch' \<Rightarrow> Returned (s\<lparr>stopChan := Some ch'\<rparr>))) of
        Panicked m \<Rightarrow> Panicked m
      | Returned s1 \<Rightarrow>
          (case WebSocketConn s1 of
             None \<Rightarrow> Returned s1
           | Some c \<Rightarrow> Returned (s1\<lparr>WebSocketConn := Some (Conn_Close c)\<rparr>)))"

text \<open>Two calls of \<^verbatim>\<open>Close()\<close> in succession on the same adapter.\<close>

definition Close_twice :: "'c MattermostMessagePlatform \<Rightarrow> 'c MattermostMessagePlatform outcome" where
  "Close_twice s = (case Close s of Panicked m \<Rightarrow> Panicked m | Returned s1 \<Rightarrow> Close s1)"

section \<open>Requests, handler tables, libraries and effects\<close>

text \<open>
  Modelled from the spec: the declarations of \<^verbatim>\<open>Request\<close>, \<^verbatim>\<open>ExtendedMessage\<close> and
  \<^verbatim>\<open>SendOptions\<close> are not among the source files. \<^verbatim>\<open>Request\<close> has the four fields of
  the spec's data model, in the order the dispatcher fills them
  (\<^verbatim>\<open>Request{content, "mattermost", post.ChannelId, post.UserId}\<close>); \<^verbatim>\<open>ExtendedMessage\<close>
  has the two fields the dispatcher reads, a nil image being \<open>None\<close>; \<^verbatim>\<open>SendOptions\<close> has
  the two options the spec names, the empty string standing for an option that is not set.
\<close>

record Request =
  Request_text :: string
  Request_platform :: string
  Request_channelId :: string
  Request_userId :: string

record ExtendedMessage =
  Text :: string
  Image :: "8 word list option"

record SendOptions =
  TargetChannel :: string
  ReplyTo :: string

text \<open>Errors: the two the adapter makes itself, and those a library call returns.\<close>

datatype error =
    Err_no_channel
  | Err_library string
  | Err_send_status string int string
  | Err_send string error
  | Err_download_status int

text \<open>
  Version 1 builds its requests by hand. The body of a post is the map \<^verbatim>\<open>postData\<close>,
  whose key \<^verbatim>\<open>root_id\<close> may be absent.
\<close>

record post_body =
  json_channel_id :: string
  json_message :: string
  json_root_id :: "string option"

record http_request =
  req_method :: string
  req_url :: string
  req_Authorization :: string
  req_Content_Type :: "string option"
  req_body :: "post_body option"

text \<open>
  What \<^verbatim>\<open>Client.Do\<close> gives: an error, or a response with its status code and what
  \<^verbatim>\<open>io.ReadAll\<close> reads from its body (the bytes read and the error, if any).
\<close>

datatype http_result = Do_failed error | Response int string "error option"

datatype log_arg = Arg_error error | Arg_string string | Arg_int int

text \<open>
  Everything the adapter does to the outside is recorded as an event: a call of a
  registered handler (named by its key, or by its position in registration order), a
  network round trip, a file operation, a log line.
\<close>

datatype event =
    Call_Handler string
  | Call_CatchallHandler nat Request
  | Call_CatchallExtendedHandler nat ExtendedMessage
  | Call_MsgInputHandler string Request
  | Call_ImageHandler nat string Request
  | Http_Do http_request
  | Api_CreatePost MattermostPost
  | Api_GetFile string
  | Os_Create string
  | File_Write string string
  | Log_Printf string "log_arg list"
  | Log_Println "log_arg list"

text \<open>
  The handler tables are package-level variables declared outside the source files; they
  are taken as a parameter. Modelled from the spec: the keyed tables are maps, the three
  sequences are lists in registration order. A handler is Go code with effects of its
  own: it takes the state of the world \<open>'w\<close> and returns it with its result.
\<close>

record 'w registry =
  Handlers :: "string \<rightharpoonup> ('w \<Rightarrow> string \<times> 'w)"
  CatchallHandlers :: "(Request \<Rightarrow> 'w \<Rightarrow> string \<times> 'w) list"
  CatchallExtendedHandlers :: "(ExtendedMessage \<Rightarrow> 'w \<Rightarrow> ExtendedMessage option \<times> 'w) list"
  MsgInputHandlers :: "string \<rightharpoonup> (Request \<Rightarrow> 'w \<Rightarrow> string \<times> 'w)"
  ImageHandlers :: "(string \<Rightarrow> Request \<Rightarrow> 'w \<Rightarrow> string \<times> 'w) list"

text \<open>
  The library calls whose outcome the adapter branches on, as a parameter: what they
  return may depend on the world, and change it.
\<close>

record ('c, 'w) libs =
  json_Unmarshal_post :: "string \<Rightarrow> error + MattermostPost"
  http_NewRequest :: "string \<Rightarrow> string \<Rightarrow> error option"
  http_Do :: "'c \<Rightarrow> http_request \<Rightarrow> 'w \<Rightarrow> http_result \<times> 'w"
  api_CreatePost :: "'c \<Rightarrow> MattermostPost \<Rightarrow> 'w \<Rightarrow> error option \<times> 'w"
  api_GetFile :: "'c \<Rightarrow> string \<Rightarrow> 'w \<Rightarrow> (error + string) \<times> 'w"
  os_Create :: "string \<Rightarrow> 'w \<Rightarrow> error option \<times> 'w"
  file_Write :: "string \<Rightarrow> string \<Rightarrow> 'w \<Rightarrow> error option \<times> 'w"

text \<open>
  An action runs in a world and gives its outcome (a value, or a panic), the events it
  produced and the world it leaves. After a panic nothing more runs.
\<close>

type_synonym ('a, 'w) action = "'w \<Rightarrow> 'a outcome \<times> event list \<times> 'w"

definition ret :: "'a \<Rightarrow> ('a, 'w) action" where
  "ret x = (\<lambda>w. (Returned x, [], w))"

definition panic :: "string \<Rightarrow> ('a, 'w) action" where
  "panic m = (\<lambda>w. (Panicked m, [], w))"

definition emit :: "event \<Rightarrow> (unit, 'w) action" where
  "emit e = (\<lambda>w. (Returned (), [e], w))"

definition invoke :: "event \<Rightarrow> ('w \<Rightarrow> 'a \<times> 'w) \<Rightarrow> ('a, 'w) action" where
  "invoke e f = (\<lambda>w. case f w of (x, w1) \<Rightarrow> (Returned x, [e], w1))"

definition bnd :: "('a, 'w) action \<Rightarrow> ('a \<Rightarrow> ('b, 'w) action) \<Rightarrow> ('b, 'w) action" where
  "bnd m f =
     (\<lambda>w. case m w of
        (Panicked msg, es, w1) \<Rightarrow> (Panicked msg, es, w1)
      | (Returned x, es, w1) \<Rightarrow> (case f x w1 of (r, es', w2) \<Rightarrow> (r, es @ es', w2)))"

definition result_of :: "'a outcome \<times> event list \<times> 'w \<Rightarrow> 'a outcome" where
  "result_of r = fst r"

definition events_of :: "'a outcome \<times> event list \<times> 'w \<Rightarrow> event list" where
  "events_of r = fst (snd r)"

definition world_of :: "'a outcome \<times> event list \<times> 'w \<Rightarrow> 'w" where
  "world_of r = snd (snd r)"

text \<open>The posts an event list sends out: version 1's request bodies, version 2's API posts.\<close>

fun Http_posts :: "event list \<Rightarrow> post_body list" where
  "Http_posts [] = []"
| "Http_posts (Http_Do r # es) =
     (case req_body r of None \<Rightarrow> Http_posts es | Some b \<Rightarrow> b # Http_posts es)"
| "Http_posts (e # es) = Http_posts es"

fun Api_posts :: "event list \<Rightarrow> MattermostPost list" where
  "Api_posts [] = []"
| "Api_posts (Api_CreatePost p # es) = p # Api_posts es"
| "Api_posts (e # es) = Api_posts es"

text \<open>The network round trips of an event list, of either version.\<close>

fun is_network :: "event \<Rightarrow> bool" where
  "is_network (Http_Do r) = True"
| "is_network (Api_CreatePost p) = True"
| "is_network (Api_GetFile f) = True"
| "is_network e = False"

section \<open>Sending\<close>

text \<open>
  \<^verbatim>\<open>s.Client.Do(req)\<close> and the client library's calls dereference the client: on a nil
  client they panic before anything is sent.
\<close>

definition Client_Do :: "('c, 'w) libs \<Rightarrow> 'c option \<Rightarrow> http_request \<Rightarrow> (http_result, 'w) action" where
  "Client_Do L client req =
     (case client of
        None \<Rightarrow> panic ''invalid memory address or nil pointer dereference''
      | Some c \<Rightarrow> invoke (Http_Do req) (http_Do L c req))"

definition Client_CreatePost :: "('c, 'w) libs \<Rightarrow> 'c option \<Rightarrow> MattermostPost \<Rightarrow> (error option, 'w) action" where
  "Client_CreatePost L client post =
     (case client of
        None \<Rightarrow> panic ''invalid memory address or nil pointer dereference''
      | Some c \<Rightarrow> invoke (Api_CreatePost post) (api_CreatePost L c post))"

text \<open>
  \<^verbatim>\<open>ChannelMessageSend(channel, message)\<close>, version 1. \<^verbatim>\<open>json.Marshal\<close> of a map of
  strings cannot fail. The method assigns to no field of the adapter, which is passed by
  value.
\<close>

definition ChannelMessageSend_v1 ::
  "('c, 'w) libs \<Rightarrow> 'c MattermostMessagePlatform \<Rightarrow> string \<Rightarrow> string \<Rightarrow> (error option, 'w) action" where
  "ChannelMessageSend_v1 L s channel0 message =
     (let channel = (if channel0 = '''' then DefaultChannel s else channel0);
          channelId = channel
      in if channelId = '''' then ret (Some Err_no_channel)
         else
           let postData = \<lparr>json_channel_id = channelId, json_message = message, json_root_id = None\<rparr>
           in case http_NewRequest L ''POST'' (ServerURL s @ ''/api/v4/posts'') of
                Some err \<Rightarrow> ret (Some err)
              | None \<Rightarrow>
                  bnd (Client_Do L (Client s)
                         \<lparr>req_method = ''POST'', req_url = ServerURL s @ ''/api/v4/posts'',
                          req_Authorization = ''Bearer '' @ BotToken s,
                          req_Content_Type = Some ''application/json'',
                          req_body = Some postData\<rparr>)
                    (\<lambda>resp. case resp of
                       Do_failed err \<Rightarrow> ret (Some err)
                     | Response StatusCode body rerr \<Rightarrow>
                         if StatusCode \<noteq> 201
                         then ret (Some (Err_send_status channel StatusCode body))
                         else ret None))"

text \<open>\<^verbatim>\<open>ChannelMessageSend(channel, message)\<close>, version 2.\<close>

definition ChannelMessageSend_v2 ::
  "('c, 'w) libs \<Rightarrow> 'c MattermostMessagePlatform \<Rightarrow> string \<Rightarrow> string \<Rightarrow> (error option, 'w) action" where
  "ChannelMessageSend_v2 L s channel0 message =
     (let channel = (if channel0 = '''' then DefaultChannel s else channel0);
          channelId = channel
      in if channelId = '''' then ret (Some Err_no_channel)
         else
           let post = \<lparr>Id_post = '''', ChannelId = channelId, UserId = '''', Message = message,
                       FileIds = [], RootId = ''''\<rparr>
           in bnd (Client_CreatePost L (Client s) post)
                (\<lambda>err. case err of
                   Some e \<Rightarrow> ret (Some (Err_send channel e))
                 | None \<Rightarrow> ret None))"

text \<open>
  \<^verbatim>\<open>SendWithOptions(text, options)\<close> and \<^verbatim>\<open>Send(text)\<close>, the same text in both versions.
  The receiver may be a nil pointer (\<open>None\<close>). \<^verbatim>\<open>log.Println(err)\<close> is a log line.
\<close>

definition SendWithOptions_v1 ::
  "('c, 'w) libs \<Rightarrow> 'c MattermostMessagePlatform option \<Rightarrow> string \<Rightarrow> SendOptions \<Rightarrow> (unit, 'w) action" where
  "SendWithOptions_v1 L s txt options =
     (case s of
        None \<Rightarrow> ret ()
      | Some a \<Rightarrow>
          bnd (ChannelMessageSend_v1 L a '''' txt)
            (\<lambda>err. case err of
               Some e \<Rightarrow> emit (Log_Println [Arg_error e])
             | None \<Rightarrow> ret ()))"

definition SendWithOptions_v2 ::
  "('c, 'w) libs \<Rightarrow> 'c MattermostMessagePlatform option \<Rightarrow> string \<Rightarrow> SendOptions \<Rightarrow> (unit, 'w) action" where
  "SendWithOptions_v2 L s txt options =
     (case s of
        None \<Rightarrow> ret ()
      | Some a \<Rightarrow>
          bnd (ChannelMessageSend_v2 L a '''' txt)
            (\<lambda>err. case err of
               Some e \<Rightarrow> emit (Log_Println [Arg_error e])
             | None \<Rightarrow> ret ()))"

definition Send_v1 ::
  "('c, 'w) libs \<Rightarrow> 'c MattermostMessagePlatform option \<Rightarrow> string \<Rightarrow> (unit, 'w) action" where
  "Send_v1 L s txt =
     (case s of
        None \<Rightarrow> ret ()
      | Some a \<Rightarrow> SendWithOptions_v1 L s txt \<lparr>TargetChannel = '''', ReplyTo = ''''\<rparr>)"

definition Send_v2 ::
  "('c, 'w) libs \<Rightarrow> 'c MattermostMessagePlatform option \<Rightarrow> string \<Rightarrow> (unit, 'w) action" where
  "Send_v2 L s txt =
     (case s of
        None \<Rightarrow> ret ()
      | Some a \<Rightarrow> SendWithOptions_v2 L s txt \<lparr>TargetChannel = '''', ReplyTo = ''''\<rparr>)"

section \<open>Replies and downloads\<close>

text \<open>
  \<^verbatim>\<open>sendReply(channelId, message, rootId)\<close>, version 1: the key \<^verbatim>\<open>root_id\<close> is set only
  for a root id that is not empty; every failure is logged and swallowed.
\<close>

definition sendReply_v1 ::
  "('c, 'w) libs \<Rightarrow> 'c MattermostMessagePlatform \<Rightarrow> string \<Rightarrow> string \<Rightarrow> string \<Rightarrow> (unit, 'w) action" where
  "sendReply_v1 L s channelId message rootId =
     (let postData = \<lparr>json_channel_id = channelId, json_message = message,
                       json_root_id = (if rootId \<noteq> '''' then Some rootId else None)\<rparr>
      in case http_NewRequest L ''POST'' (ServerURL s @ ''/api/v4/posts'') of
           Some err \<Rightarrow> emit (Log_Printf ''Failed to create request: %v'' [Arg_error err])
         | None \<Rightarrow>
             bnd (Client_Do L (Client s)
                    \<lparr>req_method = ''POST'', req_url = ServerURL s @ ''/api/v4/posts'',
                     req_Authorization = ''Bearer '' @ BotToken s,
                     req_Content_Type = Some ''application/json'',
                     req_body = Some postData\<rparr>)
               (\<lambda>resp. case resp of
                  Do_failed err \<Rightarrow> emit (Log_Printf ''Failed to send message: %v'' [Arg_error err])
                | Response StatusCode body rerr \<Rightarrow>
                    if StatusCode \<noteq> 201
                    then emit (Log_Printf ''Failed to send message, status %d: %s''
                                 [Arg_int StatusCode, Arg_string body])
                    else ret ()))"

text \<open>\<^verbatim>\<open>sendReply(channelId, message, rootId)\<close>, version 2.\<close>

definition sendReply_v2 ::
  "('c, 'w) libs \<Rightarrow> 'c MattermostMessagePlatform \<Rightarrow> string \<Rightarrow> string \<Rightarrow> string \<Rightarrow> (unit, 'w) action" where
  "sendReply_v2 L s channelId message rootId =
     (let post0 = \<lparr>Id_post = '''', ChannelId = channelId, UserId = '''', Message = message,
                    FileIds = [], RootId = ''''\<rparr>;
          post = (if rootId \<noteq> '''' then post0\<lparr>RootId := rootId\<rparr> else post0)
      in bnd (Client_CreatePost L (Client s) post)
           (\<lambda>err. case err of
              Some e \<Rightarrow> emit (Log_Printf ''Failed to send message: %v'' [Arg_error e])
            | None \<Rightarrow> ret ()))"

text \<open>\<^verbatim>\<open>sendImageReply\<close> sends the text only, in both versions.\<close>

definition sendImageReply_v1 ::
  "('c, 'w) libs \<Rightarrow> 'c MattermostMessagePlatform \<Rightarrow> string \<Rightarrow> string \<Rightarrow> 8 word list \<Rightarrow> string \<Rightarrow> string
     \<Rightarrow> (unit, 'w) action" where
  "sendImageReply_v1 L s channelId message imageData rootId originalContent =
     sendReply_v1 L s channelId message rootId"

definition sendImageReply_v2 ::
  "('c, 'w) libs \<Rightarrow> 'c MattermostMessagePlatform \<Rightarrow> string \<Rightarrow> string \<Rightarrow> 8 word list \<Rightarrow> string \<Rightarrow> string
     \<Rightarrow> (unit, 'w) action" where
  "sendImageReply_v2 L s channelId message imageData rootId originalContent =
     sendReply_v2 L s channelId message rootId"

text \<open>Creating the local file and writing the downloaded bytes, the end of both \<^verbatim>\<open>downloadFile\<close>s.\<close>

definition create_and_write :: "('c, 'w) libs \<Rightarrow> string \<Rightarrow> string \<Rightarrow> (error option, 'w) action" where
  "create_and_write L localFilename data =
     bnd (invoke (Os_Create localFilename) (os_Create L localFilename))
       (\<lambda>cerr. case cerr of
          Some err \<Rightarrow> ret (Some err)
        | None \<Rightarrow> invoke (File_Write localFilename data) (file_Write L localFilename data))"

text \<open>\<^verbatim>\<open>downloadFile(fileId, localFilename)\<close>, version 1.\<close>

definition downloadFile_v1 ::
  "('c, 'w) libs \<Rightarrow> 'c MattermostMessagePlatform \<Rightarrow> string \<Rightarrow> string \<Rightarrow> (error option, 'w) action" where
  "downloadFile_v1 L s fileId localFilename =
     (case http_NewRequest L ''GET'' (ServerURL s @ ''/api/v4/files/'' @ fileId) of
        Some err \<Rightarrow> ret (Some err)
      | None \<Rightarrow>
          bnd (Client_Do L (Client s)
                 \<lparr>req_method = ''GET'', req_url = ServerURL s @ ''/api/v4/files/'' @ fileId,
                  req_Authorization = ''Bearer '' @ BotToken s,
                  req_Content_Type = None,
                  req_body = None\<rparr>)
            (\<lambda>resp. case resp of
               Do_failed err \<Rightarrow> ret (Some err)
             | Response StatusCode data rerr \<Rightarrow>
                 if StatusCode \<noteq> 200 then ret (Some (Err_download_status StatusCode))
                 else (case rerr of
                         Some err \<Rightarrow> ret (Some err)
                       | None \<Rightarrow> create_and_write L localFilename data)))"

text \<open>\<^verbatim>\<open>downloadFile(fileId, localFilename)\<close>, version 2.\<close>

definition Client_GetFile :: "('c, 'w) libs \<Rightarrow> 'c option \<Rightarrow> string \<Rightarrow> (error + string, 'w) action" where
  "Client_GetFile L client fileId =
     (case client of
        None \<Rightarrow> panic ''invalid memory address or nil pointer dereference''
      | Some c \<Rightarrow> invoke (Api_GetFile fileId) (api_GetFile L c fileId))"

definition downloadFile_v2 ::
  "('c, 'w) libs \<Rightarrow> 'c MattermostMessagePlatform \<Rightarrow> string \<Rightarrow> string \<Rightarrow> (error option, 'w) action" where
  "downloadFile_v2 L s fileId localFilename =
     bnd (Client_GetFile L (Client s) fileId)
       (\<lambda>r. case r of
          Inl err \<Rightarrow> ret (Some err)
        | Inr data \<Rightarrow> create_and_write L localFilename data)"

section \<open>The dispatcher\<close>

text \<open>
  \<^verbatim>\<open>handleWebSocketEvent\<close> is the same text in both versions but for the root id it
  passes to \<^verbatim>\<open>sendReply\<close> (\<^verbatim>\<open>post.Id\<close> in version 1, \<^verbatim>\<open>post.RootId\<close> in version 2) and
  for the methods it calls. The stages are written once, over the methods
  \<open>sendReply\<close>, \<open>sendImageReply\<close>, \<open>downloadFile\<close> and the root id.
\<close>

text \<open>
  Exact match:
  \<^verbatim>\<open>
  h, ok := Handlers[content]
  if ok { response := h(); s.sendReply(post.ChannelId, response, rootId) }
  \<close>
\<close>

definition exact_stage ::
  "'w registry \<Rightarrow> (string \<Rightarrow> string \<Rightarrow> string \<Rightarrow> (unit, 'w) action) \<Rightarrow> MattermostPost \<Rightarrow> string \<Rightarrow> string
     \<Rightarrow> (unit, 'w) action" where
  "exact_stage R sendReply post rootId content =
     (case Handlers R content of
        None \<Rightarrow> ret ()
      | Some h \<Rightarrow>
          bnd (invoke (Call_Handler content) h)
            (\<lambda>response. sendReply (ChannelId post) response rootId))"

text \<open>The loop over \<^verbatim>\<open>CatchallHandlers\<close>; \<open>i\<close> counts the handlers already run.\<close>

fun catchall_loop ::
  "(string \<Rightarrow> string \<Rightarrow> string \<Rightarrow> (unit, 'w) action) \<Rightarrow> MattermostPost \<Rightarrow> string \<Rightarrow> string \<Rightarrow> nat
     \<Rightarrow> (Request \<Rightarrow> 'w \<Rightarrow> string \<times> 'w) list \<Rightarrow> (unit, 'w) action" where
  "catchall_loop sendReply post rootId content i [] = ret ()"
| "catchall_loop sendReply post rootId content i (v # vs) =
     bnd (invoke (Call_CatchallHandler i
                    \<lparr>Request_text = content, Request_platform = ''mattermost'',
                     Request_channelId = ChannelId post, Request_userId = UserId post\<rparr>)
            (v \<lparr>Request_text = content, Request_platform = ''mattermost'',
                Request_channelId = ChannelId post, Request_userId = UserId post\<rparr>))
       (\<lambda>r. bnd (if r \<noteq> '''' then sendReply (ChannelId post) r rootId else ret ())
          (\<lambda>_. catchall_loop sendReply post rootId content (Suc i) vs))"

text \<open>The loop over \<^verbatim>\<open>CatchallExtendedHandlers\<close>.\<close>

fun catchall_extended_loop ::
  "(string \<Rightarrow> string \<Rightarrow> string \<Rightarrow> (unit, 'w) action)
     \<Rightarrow> (string \<Rightarrow> string \<Rightarrow> 8 word list \<Rightarrow> string \<Rightarrow> string \<Rightarrow> (unit, 'w) action)
     \<Rightarrow> MattermostPost \<Rightarrow> string \<Rightarrow> string \<Rightarrow> nat
     \<Rightarrow> (ExtendedMessage \<Rightarrow> 'w \<Rightarrow> ExtendedMessage option \<times> 'w) list \<Rightarrow> (unit, 'w) action" where
  "catchall_extended_loop sendReply sendImageReply post rootId content i [] = ret ()"
| "catchall_extended_loop sendReply sendImageReply post rootId content i (v # vs) =
     bnd (invoke (Call_CatchallExtendedHandler i \<lparr>Text = content, Image = None\<rparr>)
            (v \<lparr>Text = content, Image = None\<rparr>))
       (\<lambda>r. bnd (case r of
                   None \<Rightarrow> ret ()
                 | Some m \<Rightarrow>
                     bnd (if Text m \<noteq> '''' \<and> Image m = None
                          then sendReply (ChannelId post) (Text m) rootId else ret ())
                       (\<lambda>_. case Image m of
                               None \<Rightarrow> ret ()
                             | Some img \<Rightarrow>
                                 sendImageReply (ChannelId post) (Text m) img rootId content))
          (\<lambda>_. catchall_extended_loop sendReply sendImageReply post rootId content (Suc i) vs))"

text \<open>
  \<^verbatim>\<open>strings.Index(s, sep)\<close> and \<^verbatim>\<open>strings.SplitN(s, sep, 2)\<close> for a separator of one byte:
  the string is cut at the first separator, if there is one.
\<close>

fun Index_byte :: "string \<Rightarrow> char \<Rightarrow> nat option" where
  "Index_byte [] sep = None"
| "Index_byte (c # cs) sep = (if c = sep then Some 0 else map_option Suc (Index_byte cs sep))"

definition SplitN_2 :: "string \<Rightarrow> char \<Rightarrow> string list" where
  "SplitN_2 str sep =
     (case Index_byte str sep of
        None \<Rightarrow> [str]
      | Some m \<Rightarrow> [take m str, drop (m + 1) str])"

text \<open>
  Command word:
  \<^verbatim>\<open>
  sliced_content := strings.SplitN(content, " ", 2)
  if len(sliced_content) > 1 {
      command := sliced_content[0]
      actual_content := sliced_content[1]
      ih, ok := MsgInputHandlers[command]
      if ok {
          response := ih(Request{actual_content, "mattermost", post.ChannelId, post.UserId})
          if response != "" { s.sendReply(post.ChannelId, response, rootId) }
      }
  }
  \<close>
\<close>

definition command_stage ::
  "'w registry \<Rightarrow> (string \<Rightarrow> string \<Rightarrow> string \<Rightarrow> (unit, 'w) action) \<Rightarrow> MattermostPost \<Rightarrow> string \<Rightarrow> string
     \<Rightarrow> (unit, 'w) action" where
  "command_stage R sendReply post rootId content =
     (let sliced_content = SplitN_2 content (CHR '' '')
      in if length sliced_content > 1
         then
           let command = sliced_content ! 0;
               actual_content = sliced_content ! 1
           in case MsgInputHandlers R command of
                None \<Rightarrow> ret ()
              | Some ih \<Rightarrow>
                  bnd (invoke (Call_MsgInputHandler command
                                 \<lparr>Request_text = actual_content, Request_platform = ''mattermost'',
                                  Request_channelId = ChannelId post, Request_userId = UserId post\<rparr>)
                         (ih \<lparr>Request_text = actual_content, Request_platform = ''mattermost'',
                              Request_channelId = ChannelId post, Request_userId = UserId post\<rparr>))
                    (\<lambda>response. if response \<noteq> ''''
                                 then sendReply (ChannelId post) response rootId else ret ())
         else ret ())"

text \<open>The loop over \<^verbatim>\<open>ImageHandlers\<close> for one downloaded file.\<close>

fun image_loop ::
  "(string \<Rightarrow> string \<Rightarrow> string \<Rightarrow> (unit, 'w) action) \<Rightarrow> MattermostPost \<Rightarrow> string \<Rightarrow> string \<Rightarrow> string \<Rightarrow> nat
     \<Rightarrow> (string \<Rightarrow> Request \<Rightarrow> 'w \<Rightarrow> string \<times> 'w) list \<Rightarrow> (unit, 'w) action" where
  "image_loop sendReply post rootId content filename i [] = ret ()"
| "image_loop sendReply post rootId content filename i (v # vs) =
     bnd (invoke (Call_ImageHandler i filename
                    \<lparr>Request_text = content, Request_platform = ''mattermost'',
                     Request_channelId = ChannelId post, Request_userId = UserId post\<rparr>)
            (v filename
               \<lparr>Request_text = content, Request_platform = ''mattermost'',
                Request_channelId = ChannelId post, Request_userId = UserId post\<rparr>))
       (\<lambda>r. bnd (if r \<noteq> '''' then sendReply (ChannelId post) r rootId else ret ())
          (\<lambda>_. image_loop sendReply post rootId content filename (Suc i) vs))"

text \<open>\<^verbatim>\<open>filename := fmt.Sprintf("tmp/%s", fileId)\<close>\<close>

definition tmp_filename :: "string \<Rightarrow> string" where
  "tmp_filename fileId = ''tmp/'' @ fileId"

text \<open>
  The loop over \<^verbatim>\<open>post.FileIds\<close>: a failed download is logged and the loop continues
  with the next file id. The clean-up under \<^verbatim>\<open>if false\<close> never runs.
\<close>

fun attachment_loop ::
  "'w registry \<Rightarrow> (string \<Rightarrow> string \<Rightarrow> string \<Rightarrow> (unit, 'w) action)
     \<Rightarrow> (string \<Rightarrow> string \<Rightarrow> (error option, 'w) action)
     \<Rightarrow> MattermostPost \<Rightarrow> string \<Rightarrow> string \<Rightarrow> string list \<Rightarrow> (unit, 'w) action" where
  "attachment_loop R sendReply downloadFile post rootId content [] = ret ()"
| "attachment_loop R sendReply downloadFile post rootId content (fileId # rest) =
     bnd (downloadFile fileId (tmp_filename fileId))
       (\<lambda>err. case err of
          Some e \<Rightarrow>
            bnd (emit (Log_Printf ''Failed to download file: %v'' [Arg_error e]))
              (\<lambda>_. attachment_loop R sendReply downloadFile post rootId content rest)
        | None \<Rightarrow>
            bnd (image_loop sendReply post rootId content (tmp_filename fileId) 0 (ImageHandlers R))
              (\<lambda>_. attachment_loop R sendReply downloadFile post rootId content rest))"

definition attachment_stage ::
  "'w registry \<Rightarrow> (string \<Rightarrow> string \<Rightarrow> string \<Rightarrow> (unit, 'w) action)
     \<Rightarrow> (string \<Rightarrow> string \<Rightarrow> (error option, 'w) action)
     \<Rightarrow> MattermostPost \<Rightarrow> string \<Rightarrow> string \<Rightarrow> (unit, 'w) action" where
  "attachment_stage R sendReply downloadFile post rootId content =
     (if length (FileIds post) > 0
      then attachment_loop R sendReply downloadFile post rootId content (FileIds post)
      else ret ())"

text \<open>The stages in the order of the source, for a post that passed the self-filter.\<close>

definition dispatch ::
  "'w registry \<Rightarrow> (string \<Rightarrow> string \<Rightarrow> string \<Rightarrow> (unit, 'w) action)
     \<Rightarrow> (string \<Rightarrow> string \<Rightarrow> 8 word list \<Rightarrow> string \<Rightarrow> string \<Rightarrow> (unit, 'w) action)
     \<Rightarrow> (string \<Rightarrow> string \<Rightarrow> (error option, 'w) action)
     \<Rightarrow> MattermostPost \<Rightarrow> string \<Rightarrow> (unit, 'w) action" where
  "dispatch R sendReply sendImageReply downloadFile post rootId =
     (let content = Message post
      in bnd (exact_stage R sendReply post rootId content)
        (\<lambda>_. bnd (catchall_loop sendReply post rootId content 0 (CatchallHandlers R))
        (\<lambda>_. bnd (catchall_extended_loop sendReply sendImageReply post rootId content 0
                    (CatchallExtendedHandlers R))
        (\<lambda>_. bnd (command_stage R sendReply post rootId content)
        (\<lambda>_. attachment_stage R sendReply downloadFile post rootId content)))))"

text \<open>
  The head of \<^verbatim>\<open>handleWebSocketEvent\<close>: only a \<^verbatim>\<open>posted\<close> event whose \<^verbatim>\<open>post\<close> datum is
  a string that decodes to a post is dispatched, and only when its sender is not the bot
  itself. \<^verbatim>\<open>s.User.Id\<close> dereferences the bot user.
\<close>

definition handleWebSocketEvent_with ::
  "(string \<Rightarrow> string \<Rightarrow> string \<Rightarrow> (unit, 'w) action)
     \<Rightarrow> (string \<Rightarrow> string \<Rightarrow> 8 word list \<Rightarrow> string \<Rightarrow> string \<Rightarrow> (unit, 'w) action)
     \<Rightarrow> (string \<Rightarrow> string \<Rightarrow> (error option, 'w) action)
     \<Rightarrow> (MattermostPost \<Rightarrow> string)
     \<Rightarrow> ('c, 'w) libs \<Rightarrow> 'w registry \<Rightarrow> 'c MattermostMessagePlatform \<Rightarrow> MattermostWebSocketEvent
     \<Rightarrow> (unit, 'w) action" where
  "handleWebSocketEvent_with sendReply sendImageReply downloadFile rootOf L R s event =
     (if Event event \<noteq> ''posted'' then ret ()
      else case Data event ''post'' of
             None \<Rightarrow> ret ()
           | Some Json_other \<Rightarrow> ret ()
           | Some (Json_string postData) \<Rightarrow>
               (case json_Unmarshal_post L postData of
                  Inl err \<Rightarrow> emit (Log_Printf ''Failed to unmarshal post: %v'' [Arg_error err])
                | Inr post \<Rightarrow>
                    (case User s of
                       None \<Rightarrow> panic ''invalid memory address or nil pointer dereference''
                     | Some user \<Rightarrow>
                         if UserId post = Id_user user then ret ()
                         else dispatch R sendReply sendImageReply downloadFile post (rootOf post))))"

definition handleWebSocketEvent_v1 ::
  "('c, 'w) libs \<Rightarrow> 'w registry \<Rightarrow> 'c MattermostMessagePlatform \<Rightarrow> MattermostWebSocketEvent
     \<Rightarrow> (unit, 'w) action" where
  "handleWebSocketEvent_v1 L R s event =
     handleWebSocketEvent_with (sendReply_v1 L s) (sendImageReply_v1 L s) (downloadFile_v1 L s)
       Id_post L R s event"

definition handleWebSocketEvent_v2 ::
  "('c, 'w) libs \<Rightarrow> 'w registry \<Rightarrow> 'c MattermostMessagePlatform \<Rightarrow> MattermostWebSocketEvent
     \<Rightarrow> (unit, 'w) action" where
  "handleWebSocketEvent_v2 L R s event =
     handleWebSocketEvent_with (sendReply_v2 L s) (sendImageReply_v2 L s) (downloadFile_v2 L s)
       RootId L R s event"

section \<open>Observing a run\<close>

text \<open>Kinds of events: calls of catchall and extended catchall handlers, calls of command handlers.\<close>

fun is_catchall_call :: "event \<Rightarrow> bool" where
  "is_catchall_call (Call_CatchallHandler i r) = True"
| "is_catchall_call (Call_CatchallExtendedHandler i m) = True"
| "is_catchall_call e = False"

fun is_command_call :: "event \<Rightarrow> bool" where
  "is_command_call (Call_MsgInputHandler k r) = True"
| "is_command_call e = False"

text \<open>
  What the attachment stage leaves in a run: the download requests (of either version),
  the log line of a failed download, the calls of the image handlers.
\<close>

fun is_attachment_event :: "event \<Rightarrow> bool" where
  "is_attachment_event (Call_ImageHandler i f r) = True"
| "is_attachment_event (Http_Do q) = (req_method q = ''GET'')"
| "is_attachment_event (Api_GetFile f) = True"
| "is_attachment_event (Log_Printf f a) = (f = ''Failed to download file: %v'')"
| "is_attachment_event e = False"

text \<open>
  The download request of version 1 for one file id: none when \<^verbatim>\<open>http.NewRequest\<close>
  refuses the URL, else the GET request.
\<close>

definition download_request_v1 :: "('c, 'w) libs \<Rightarrow> 'c MattermostMessagePlatform \<Rightarrow> string \<Rightarrow> event list" where
  "download_request_v1 L s fileId =
     (case http_NewRequest L ''GET'' (ServerURL s @ ''/api/v4/files/'' @ fileId) of
        Some err \<Rightarrow> []
      | None \<Rightarrow>
          [Http_Do \<lparr>req_method = ''GET'', req_url = ServerURL s @ ''/api/v4/files/'' @ fileId,
                    req_Authorization = ''Bearer '' @ BotToken s,
                    req_Content_Type = None, req_body = None\<rparr>])"

text \<open>
  What one attachment must leave after its download returned \<open>r\<close>, with \<open>k\<close> image
  handlers registered: the log line of the failure, or one call of every image handler,
  in registration order, on the downloaded file.
\<close>

definition attachment_events :: "nat \<Rightarrow> Request \<Rightarrow> string \<Rightarrow> error option \<Rightarrow> event list" where
  "attachment_events k req fileId r =
     (case r of
        Some e \<Rightarrow> [Log_Printf ''Failed to download file: %v'' [Arg_error e]]
      | None \<Rightarrow> map (\<lambda>j. Call_ImageHandler j (tmp_filename fileId) req) [0..<k])"


text \<open>The root id of the posts an event sends: version 1's key, version 2's field.\<close>

fun root_is_v1 :: "string option \<Rightarrow> event \<Rightarrow> bool" where
  "root_is_v1 root (Http_Do q) =
     (case req_body q of None \<Rightarrow> True | Some b \<Rightarrow> json_root_id b = root)"
| "root_is_v1 root e = True"

fun root_is_v2 :: "string \<Rightarrow> event \<Rightarrow> bool" where
  "root_is_v2 root (Api_CreatePost p) = (RootId p = root)"
| "root_is_v2 root e = True"

section \<open>Concrete inputs\<close>

text \<open>
  A post with a command word and two attachments, the first of which cannot be
  downloaded; libraries that count their calls in the world; a registry with a handler
  of every kind; the adapter as constructed, with a default channel.
\<close>

definition demo_post :: MattermostPost where
  "demo_post = \<lparr>Id_post = ''p1'', ChannelId = ''ch1'', UserId = ''alice'', Message = ''!echo hi'',
                 FileIds = [''bad'', ''f1''], RootId = []\<rparr>"

definition demo_event :: MattermostWebSocketEvent where
  "demo_event = \<lparr>Event = ''posted'', Data = [''post'' \<mapsto> Json_string ''{...}'']\<rparr>"

definition demo_libs :: "(unit, nat) libs" where
  "demo_libs =
     \<lparr>json_Unmarshal_post =
        (\<lambda>d. if d = ''{...}'' then Inr demo_post else Inl (Err_library ''bad json'')),
      http_NewRequest = (\<lambda>m u. None),
      http_Do = (\<lambda>c q w. if req_method q = ''POST'' then (Response 201 [] None, Suc w)
                           else if req_url q = ''http://mm/api/v4/files/bad''
                           then (Response 404 [] None, Suc w)
                           else (Response 200 ''bytes'' None, Suc w)),
      api_CreatePost = (\<lambda>c p w. (None, Suc w)),
      api_GetFile = (\<lambda>c f w. if f = ''bad'' then (Inl (Err_library ''not found''), Suc w)
                               else (Inr ''bytes'', Suc w)),
      os_Create = (\<lambda>f w. (None, Suc w)),
      file_Write = (\<lambda>f d w. (None, Suc w))\<rparr>"

definition demo_registry :: "nat registry" where
  "demo_registry =
     \<lparr>Handlers = [''!echo hi'' \<mapsto> (\<lambda>w. (''exact'', Suc w))],
      CatchallHandlers = [(\<lambda>r w. (''seen'', Suc w)), (\<lambda>r w. ([], Suc w))],
      CatchallExtendedHandlers =
        [(\<lambda>m w. (Some \<lparr>Text = ''ext'', Image = None\<rparr>, Suc w)),
         (\<lambda>m w. (None, Suc w)),
         (\<lambda>m w. (Some \<lparr>Text = ''img'', Image = Some [1, 2]\<rparr>, Suc w))],
      MsgInputHandlers = [''!echo'' \<mapsto> (\<lambda>r w. (Request_text r, Suc w))],
      ImageHandlers = [(\<lambda>f r w. (''got '' @ f, Suc w))]\<rparr>"

definition demo_user :: MattermostUser where
  "demo_user = \<lparr>Id_user = ''bot'', Username = ''multibot'', Email = []\<rparr>"

definition demo_adapter :: "unit MattermostMessagePlatform" where
  "demo_adapter =
     (NewMessagePlatformFromMattermost_value () demo_user ''team1'' ''token'' ''http://mm'')
       \<lparr>DefaultChannel := ''town''\<rparr>"

text \<open>
  A post whose text is the key of an exact-match handler that returns the empty string,
  in a registry that holds nothing else.
\<close>

definition ping_post :: MattermostPost where
  "ping_post = \<lparr>Id_post = ''p2'', ChannelId = ''ch1'', UserId = ''alice'', Message = ''ping'',
                 FileIds = [], RootId = []\<rparr>"

definition ping_event :: MattermostWebSocketEvent where
  "ping_event = \<lparr>Event = ''posted'', Data = [''post'' \<mapsto> Json_string ''{ping}'']\<rparr>"

definition ping_libs :: "(unit, nat) libs" where
  "ping_libs = demo_libs\<lparr>json_Unmarshal_post :=
     (\<lambda>d. if d = ''{ping}'' then Inr ping_post else Inl (Err_library ''bad json''))\<rparr>"

definition ping_registry :: "nat registry" where
  "ping_registry =
     \<lparr>Handlers = [''ping'' \<mapsto> (\<lambda>w. ([], Suc w))],
      CatchallHandlers = [],
      CatchallExtendedHandlers = [],
      MsgInputHandlers = Map.empty,
      ImageHandlers = []\<rparr>"







section \<open>Reading the outcome, the events and the world of an action\<close>

lemma result_of_simps [simp]:
  "result_of (a, b, c) = a" "events_of (a, b, c) = b" "world_of (a, b, c) = c"
  by (simp_all add: result_of_def events_of_def world_of_def)

lemma ret_simps [simp]:
  "result_of (ret x w) = Returned x" "events_of (ret x w) = []" "world_of (ret x w) = w"
  by (simp_all add: ret_def)

lemma panic_simps [simp]:
  "result_of (panic m w) = Panicked m" "events_of (panic m w) = []" "world_of (panic m w) = w"
  by (simp_all add: panic_def)

lemma emit_simps [simp]:
  "result_of (emit e w) = Returned ()" "events_of (emit e w) = [e]" "world_of (emit e w) = w"
  by (simp_all add: emit_def)

lemma invoke_simps [simp]:
  "result_of (invoke e f w) = Returned (fst (f w))" "events_of (invoke e f w) = [e]"
  "world_of (invoke e f w) = snd (f w)"
  by (simp_all add: invoke_def split: prod.splits)

lemma result_of_bnd [simp]:
  "result_of (bnd m f w) =
     (case result_of (m w) of
        Panicked msg \<Rightarrow> Panicked msg
      | Returned x \<Rightarrow> result_of (f x (world_of (m w))))"
  by (simp add: bnd_def result_of_def world_of_def split: prod.splits outcome.splits)

lemma events_of_bnd [simp]:
  "events_of (bnd m f w) =
     (case result_of (m w) of
        Panicked msg \<Rightarrow> events_of (m w)
      | Returned x \<Rightarrow> events_of (m w) @ events_of (f x (world_of (m w))))"
  by (simp add: bnd_def result_of_def world_of_def events_of_def split: prod.splits outcome.splits)

lemma world_of_bnd [simp]:
  "world_of (bnd m f w) =
     (case result_of (m w) of
        Panicked msg \<Rightarrow> world_of (m w)
      | Returned x \<Rightarrow> world_of (f x (world_of (m w))))"
  by (simp add: bnd_def result_of_def world_of_def events_of_def split: prod.splits outcome.splits)

lemma if_action [simp]: "(if b then m else n) w = (if b then m w else n w)"
  by simp


section \<open>What the methods of the two versions do\<close>









section \<open>The stages, projected on a kind of event\<close>











lemma filter_attachment_events [simp]:
  "filter is_catchall_call (attachment_events k req fid r) = []"
  "filter is_command_call (attachment_events k req fid r) = []"
  "filter is_attachment_event (attachment_events k req fid r) = attachment_events k req fid r"
  by (simp_all add: attachment_events_def split: option.splits)

lemma filter_download_request_v1 [simp]:
  "filter is_catchall_call (download_request_v1 L s fid) = []"
  "filter is_command_call (download_request_v1 L s fid) = []"
  "filter is_attachment_event (download_request_v1 L s fid) = download_request_v1 L s fid"
  by (simp_all add: download_request_v1_def split: option.splits)






section \<open>The stages, event by event\<close>

text \<open>
  A property \<open>Q\<close> that holds of every event that is not a network round trip, and of
  every event of the methods when they are given the root id \<open>rid\<close>, holds of every
  event of a stage; also of a stage that panics half way.
\<close>

lemma exact_stage_list_all:
  assumes A: "\<And>c m w. list_all Q (events_of (send c m rid w))"
    and NC: "\<And>e. \<not> is_network e \<Longrightarrow> Q e"
  shows "list_all Q (events_of (exact_stage R send post rid content w))"
  by (simp add: exact_stage_def A NC split: option.splits outcome.splits)

lemma catchall_loop_list_all:
  assumes A: "\<And>c m w. list_all Q (events_of (send c m rid w))"
    and NC: "\<And>e. \<not> is_network e \<Longrightarrow> Q e"
  shows "list_all Q (events_of (catchall_loop send post rid content i hs w))"
proof (induction hs arbitrary: i w)
  case Nil
  show ?case by simp
next
  case (Cons v vs)
  show ?case
    by (simp add: A NC Cons.IH split: outcome.splits)
qed

lemma catchall_extended_loop_list_all:
  assumes A: "\<And>c m w. list_all Q (events_of (send c m rid w))"
    and AI: "\<And>c m img oc w. list_all Q (events_of (sendImage c m img rid oc w))"
    and NC: "\<And>e. \<not> is_network e \<Longrightarrow> Q e"
  shows "list_all Q (events_of (catchall_extended_loop send sendImage post rid content i hs w))"
proof (induction hs arbitrary: i w)
  case Nil
  show ?case by simp
next
  case (Cons v vs)
  show ?case
    by (simp add: A AI NC Cons.IH split: outcome.splits option.splits)
qed

lemma command_stage_list_all:
  assumes A: "\<And>c m w. list_all Q (events_of (send c m rid w))"
    and NC: "\<And>e. \<not> is_network e \<Longrightarrow> Q e"
  shows "list_all Q (events_of (command_stage R send post rid content w))"
  by (simp add: command_stage_def Let_def A NC split: option.splits outcome.splits)

lemma image_loop_list_all:
  assumes A: "\<And>c m w. list_all Q (events_of (send c m rid w))"
    and NC: "\<And>e. \<not> is_network e \<Longrightarrow> Q e"
  shows "list_all Q (events_of (image_loop send post rid content fn i hs w))"
proof (induction hs arbitrary: i w)
  case Nil
  show ?case by simp
next
  case (Cons v vs)
  show ?case
    by (simp add: A NC Cons.IH split: outcome.splits)
qed

lemma attachment_loop_list_all:
  assumes A: "\<And>c m w. list_all Q (events_of (send c m rid w))"
    and AD: "\<And>fid fn w. list_all Q (events_of (download fid fn w))"
    and NC: "\<And>e. \<not> is_network e \<Longrightarrow> Q e"
  shows "list_all Q (events_of (attachment_loop R send download post rid content fids w))"
proof (induction fids arbitrary: w)
  case Nil
  show ?case by simp
next
  case (Cons fid rest)
  show ?case
    by (simp add: A AD NC Cons.IH
        image_loop_list_all[where Q = Q and send = send and rid = rid, OF A NC]
        split: outcome.splits option.splits)
qed

lemma dispatch_list_all:
  assumes A: "\<And>c m w. list_all Q (events_of (send c m rid w))"
    and AI: "\<And>c m img oc w. list_all Q (events_of (sendImage c m img rid oc w))"
    and AD: "\<And>fid fn w. list_all Q (events_of (download fid fn w))"
    and NC: "\<And>e. \<not> is_network e \<Longrightarrow> Q e"
  shows "list_all Q (events_of (dispatch R send sendImage download post rid w))"
  by (simp add: dispatch_def Let_def attachment_stage_def
      exact_stage_list_all[where Q = Q and send = send and rid = rid, OF A NC]
      catchall_loop_list_all[where Q = Q and send = send and rid = rid, OF A NC]
      catchall_extended_loop_list_all[where Q = Q and send = send and sendImage = sendImage
        and rid = rid, OF A AI NC]
      command_stage_list_all[where Q = Q and send = send and rid = rid, OF A NC]
      attachment_loop_list_all[where Q = Q and send = send and download = download
        and rid = rid, OF A AD NC]
      split: outcome.splits)

lemma handle_with_list_all:
  assumes A: "\<And>p c m w. list_all (Q p) (events_of (send c m (rootOf p) w))"
    and AI: "\<And>p c m img oc w. list_all (Q p) (events_of (sendImage c m img (rootOf p) oc w))"
    and AD: "\<And>p fid fn w. list_all (Q p) (events_of (download fid fn w))"
    and NC: "\<And>p e. \<not> is_network e \<Longrightarrow> Q p e"
    and dec: "Event ev = ''posted''" "Data ev ''post'' = Some (Json_string postData)"
      "json_Unmarshal_post L postData = Inr post"
  shows "list_all (Q post)
           (events_of (handleWebSocketEvent_with send sendImage download rootOf L R s ev w))"
  by (simp add: handleWebSocketEvent_with_def dec
      dispatch_list_all[where Q = "Q post" and send = send and sendImage = sendImage
        and download = download and rid = "rootOf post", OF A AI AD NC] split: option.splits)

lemma root_is_v1_posts:
  "list_all (root_is_v1 root) es \<Longrightarrow> list_all (\<lambda>b. json_root_id b = root) (Http_posts es)"
  by (induction es rule: Http_posts.induct) (simp_all split: option.splits)

lemma root_is_v2_posts:
  "list_all (root_is_v2 root) es \<Longrightarrow> list_all (\<lambda>p. RootId p = root) (Api_posts es)"
  by (induction es rule: Api_posts.induct) simp_all

lemma not_network_root_is:
  "\<not> is_network e \<Longrightarrow> root_is_v1 r1 e" "\<not> is_network e \<Longrightarrow> root_is_v2 r2 e"
  by (cases e; simp)+

lemma sendReply_v1_root:
  "list_all (root_is_v1 (if rid = [] then None else Some rid)) (events_of (sendReply_v1 L s c m rid w))"
  by (simp add: sendReply_v1_def Client_Do_def Let_def split: option.splits http_result.splits)

lemma sendReply_v2_root:
  "list_all (root_is_v2 rid) (events_of (sendReply_v2 L s c m rid w))"
  by (simp add: sendReply_v2_def Client_CreatePost_def Let_def split: option.splits)

lemma downloadFile_v1_root:
  "list_all (root_is_v1 r) (events_of (downloadFile_v1 L s fid fn w))"
  by (simp add: downloadFile_v1_def create_and_write_def Client_Do_def
      split: option.splits http_result.splits)

lemma downloadFile_v2_root:
  "list_all (root_is_v2 r) (events_of (downloadFile_v2 L s fid fn w))"
  by (simp add: downloadFile_v2_def create_and_write_def Client_GetFile_def
      split: option.splits sum.splits)

section \<open>The concrete inputs\<close>

lemmas demo_defs = demo_post_def demo_event_def demo_libs_def demo_registry_def demo_user_def
  demo_adapter_def NewMessagePlatformFromMattermost_value_def

lemmas model_defs = handleWebSocketEvent_v1_def handleWebSocketEvent_v2_def
  handleWebSocketEvent_with_def dispatch_def exact_stage_def command_stage_def
  attachment_stage_def SplitN_2_def tmp_filename_def sendReply_v1_def sendReply_v2_def
  sendImageReply_v1_def sendImageReply_v2_def downloadFile_v1_def downloadFile_v2_def
  create_and_write_def Client_Do_def Client_CreatePost_def Client_GetFile_def

lemma demo_dispatched:
  "Event demo_event = ''posted''" "Data demo_event ''post'' = Some (Json_string ''{...}'')"
  "json_Unmarshal_post demo_libs ''{...}'' = Inr demo_post"
  "User demo_adapter = Some demo_user" "UserId demo_post \<noteq> Id_user demo_user"
  "Client demo_adapter = Some ()"
  by (simp_all add: demo_defs)

section \<open>C1: Close is not idempotent\<close>

text \<open>
  Claim C1 says that calling \<^verbatim>\<open>Close()\<close> twice in succession produces no panic, also on
  an adapter that never started \<^verbatim>\<open>ProcessMessages()\<close>. On the adapter as the constructor
  returns it (stop channel open, no websocket connection) the first call returns, leaving
  the stop channel closed and still not nil, and the second call panics with
  "close of closed channel".
\<close>

theorem Close_twice_panics:
  "Close (NewMessagePlatformFromMattermost_value client user teamId tok url)
     = Returned ((NewMessagePlatformFromMattermost_value client user teamId tok url)
                   \<lparr>stopChan := Some Chan_closed\<rparr>)
   \<and> Close_twice (NewMessagePlatformFromMattermost_value client user teamId tok url)
     = Panicked ''close of closed channel''"
  by (simp add: Close_twice_def Close_def close_chan_def NewMessagePlatformFromMattermost_value_def)

section \<open>C2: the exact-match stage sends an empty reply\<close>

text \<open>
  Claim C2 says that the exact-match stage sends the string its handler returns only if
  it is not empty. The stage passes the string to \<^verbatim>\<open>sendReply\<close> without looking at it,
  where every other stage tests \<^verbatim>\<open>r != ""\<close> first. For a post whose text is the key of a
  handler that returns the empty string, in a registry with no other handler, a post
  with an empty message goes out to the server, in both versions.
\<close>

theorem exact_match_sends_empty_reply:
  "events_of (handleWebSocketEvent_v1 ping_libs ping_registry demo_adapter ping_event 0) =
     [Call_Handler ''ping'',
      Http_Do \<lparr>req_method = ''POST'', req_url = ''http://mm/api/v4/posts'',
               req_Authorization = ''Bearer token'', req_Content_Type = Some ''application/json'',
               req_body = Some \<lparr>json_channel_id = ''ch1'', json_message = [],
                                 json_root_id = Some ''p2''\<rparr>\<rparr>] \<and>
   events_of (handleWebSocketEvent_v2 ping_libs ping_registry demo_adapter ping_event 0) =
     [Call_Handler ''ping'',
      Api_CreatePost \<lparr>Id_post = [], ChannelId = ''ch1'', UserId = [], Message = [],
                      FileIds = [], RootId = []\<rparr>]"
  by (simp add: ping_post_def ping_event_def ping_libs_def ping_registry_def demo_defs
      model_defs Let_def)

section \<open>C3: SendWithOptions sends to the default channel\<close>




section \<open>C4: the root id of a reply\<close>

text \<open>
  Claim C4 says that in both versions every reply carries the triggering message's own
  id as its root id. Version 2 passes \<^verbatim>\<open>post.RootId\<close> where version 1 passes
  \<^verbatim>\<open>post.Id\<close>: for the post \<open>p1\<close>, which is in no thread, the six replies of version 2
  all go out with an empty root id.
\<close>

theorem reply_root_is_not_post_id_in_v2:
  "json_Unmarshal_post demo_libs ''{...}'' = Inr demo_post \<and> Id_post demo_post = ''p1'' \<and>
   map RootId (Api_posts (events_of
      (handleWebSocketEvent_v2 demo_libs demo_registry demo_adapter demo_event 0))) =
     [[], [], [], [], [], []]"
  by (simp add: demo_defs model_defs Let_def)

text \<open>
  Claim C4, amended: for every inbound message, every reply of whatever stage is sent
  with one and the same root id: in version 1 the triggering message's own id (the key
  \<^verbatim>\<open>root_id\<close> is left out when that id is empty), in version 2 the triggering message's
  root id, so that the reply joins the thread the message is in, and is a plain channel
  post when it is in none.
\<close>

theorem reply_root_id_by_version:
  assumes "Event ev = ''posted''" and "Data ev ''post'' = Some (Json_string postData)"
    and "json_Unmarshal_post L postData = Inr post"
  shows "list_all (\<lambda>b. json_root_id b = (if Id_post post = [] then None else Some (Id_post post)))
           (Http_posts (events_of (handleWebSocketEvent_v1 L R s ev w))) \<and>
         list_all (\<lambda>p. RootId p = RootId post)
           (Api_posts (events_of (handleWebSocketEvent_v2 L R s ev w)))"
proof
  have "list_all (root_is_v1 (if Id_post post = [] then None else Some (Id_post post)))
          (events_of (handleWebSocketEvent_v1 L R s ev w))"
    unfolding handleWebSocketEvent_v1_def
    by (rule handle_with_list_all[where
            Q = "\<lambda>p. root_is_v1 (if Id_post p = [] then None else Some (Id_post p))",
          OF _ _ _ _ assms])
       (simp_all add: sendReply_v1_root sendImageReply_v1_def downloadFile_v1_root
          not_network_root_is)
  then show "list_all (\<lambda>b. json_root_id b = (if Id_post post = [] then None else Some (Id_post post)))
           (Http_posts (events_of (handleWebSocketEvent_v1 L R s ev w)))"
    by (rule root_is_v1_posts)
next
  have "list_all (root_is_v2 (RootId post)) (events_of (handleWebSocketEvent_v2 L R s ev w))"
    unfolding handleWebSocketEvent_v2_def
    by (rule handle_with_list_all[where Q = "\<lambda>p. root_is_v2 (RootId p)", OF _ _ _ _ assms])
       (simp_all add: sendReply_v2_root sendImageReply_v2_def downloadFile_v2_root
          not_network_root_is)
  then show "list_all (\<lambda>p. RootId p = RootId post)
           (Api_posts (events_of (handleWebSocketEvent_v2 L R s ev w)))"
    by (rule root_is_v2_posts)
qed

text \<open>The amended claim C4 on the post \<open>p1\<close>, which draws a reply from every stage.\<close>

theorem reply_root_id_by_version_witness:
  "list_all (\<lambda>b. json_root_id b = Some ''p1'')
     (Http_posts (events_of (handleWebSocketEvent_v1 demo_libs demo_registry demo_adapter demo_event 0))) \<and>
   list_all (\<lambda>p. RootId p = [])
     (Api_posts (events_of (handleWebSocketEvent_v2 demo_libs demo_registry demo_adapter demo_event 0)))"
  using reply_root_id_by_version[OF demo_dispatched(1-3), of demo_registry demo_adapter 0]
  by (simp add: demo_post_def)

section \<open>C5: ChannelMessageSend with an empty channel\<close>

text \<open>
  Claim C5: for every message, \<^verbatim>\<open>ChannelMessageSend\<close> with an empty channel argument
  sends to the adapter's default channel: it does what the call with the default channel
  as argument does, and with a default channel (and a client) its one network call is
  the post for that channel (in version 1, when the request can be built). When the
  default channel is empty too, it returns the error "no channel specified", makes no
  network call and no other event, and leaves the world as it was. The method assigns
  to no field of the adapter, which the model therefore passes by value.
\<close>

theorem ChannelMessageSend_empty_channel:
  "ChannelMessageSend_v1 L s [] message = ChannelMessageSend_v1 L s (DefaultChannel s) message \<and>
   ChannelMessageSend_v2 L s [] message = ChannelMessageSend_v2 L s (DefaultChannel s) message \<and>
   (DefaultChannel s = [] \<longrightarrow>
      ChannelMessageSend_v1 L s [] message w = (Returned (Some Err_no_channel), [], w) \<and>
      ChannelMessageSend_v2 L s [] message w = (Returned (Some Err_no_channel), [], w)) \<and>
   (DefaultChannel s \<noteq> [] \<and> Client s = Some c \<longrightarrow>
      events_of (ChannelMessageSend_v1 L s [] message w) =
        (case http_NewRequest L ''POST'' (ServerURL s @ ''/api/v4/posts'') of
           Some err \<Rightarrow> []
         | None \<Rightarrow>
             [Http_Do \<lparr>req_method = ''POST'', req_url = ServerURL s @ ''/api/v4/posts'',
                       req_Authorization = ''Bearer '' @ BotToken s,
                       req_Content_Type = Some ''application/json'',
                       req_body = Some \<lparr>json_channel_id = DefaultChannel s,
                                         json_message = message, json_root_id = None\<rparr>\<rparr>]) \<and>
      events_of (ChannelMessageSend_v2 L s [] message w) =
        [Api_CreatePost \<lparr>Id_post = [], ChannelId = DefaultChannel s, UserId = [],
                         Message = message, FileIds = [], RootId = []\<rparr>])"
  by (simp add: ChannelMessageSend_v1_def ChannelMessageSend_v2_def Let_def ret_def
      Client_Do_def Client_CreatePost_def split: option.splits http_result.splits)

text \<open>
  Claim C5 on the adapter with the default channel \<open>town\<close>, and on the same adapter
  without a default channel.
\<close>

theorem ChannelMessageSend_empty_channel_witness:
  "DefaultChannel demo_adapter \<noteq> [] \<and> Client demo_adapter = Some () \<and>
   events_of (ChannelMessageSend_v1 demo_libs demo_adapter [] ''hello'' 0) =
     [Http_Do \<lparr>req_method = ''POST'', req_url = ''http://mm/api/v4/posts'',
               req_Authorization = ''Bearer token'', req_Content_Type = Some ''application/json'',
               req_body = Some \<lparr>json_channel_id = ''town'', json_message = ''hello'',
                                 json_root_id = None\<rparr>\<rparr>] \<and>
   events_of (ChannelMessageSend_v2 demo_libs demo_adapter [] ''hello'' 0) =
     [Api_CreatePost \<lparr>Id_post = [], ChannelId = ''town'', UserId = [], Message = ''hello'',
                      FileIds = [], RootId = []\<rparr>] \<and>
   DefaultChannel (demo_adapter\<lparr>DefaultChannel := []\<rparr>) = [] \<and>
   ChannelMessageSend_v1 demo_libs (demo_adapter\<lparr>DefaultChannel := []\<rparr>) [] ''hello'' 0 =
     (Returned (Some Err_no_channel), [], 0) \<and>
   ChannelMessageSend_v2 demo_libs (demo_adapter\<lparr>DefaultChannel := []\<rparr>) [] ''hello'' 0 =
     (Returned (Some Err_no_channel), [], 0)"
proof -
  have h: "DefaultChannel demo_adapter \<noteq> [] \<and> Client demo_adapter = Some ()"
    by (simp add: demo_adapter_def NewMessagePlatformFromMattermost_value_def)
  have n: "http_NewRequest demo_libs ''POST'' (ServerURL demo_adapter @ ''/api/v4/posts'') = None"
    by (simp add: demo_libs_def)
  have e: "DefaultChannel (demo_adapter\<lparr>DefaultChannel := []\<rparr>) = []"
    by simp
  from ChannelMessageSend_empty_channel[of demo_libs demo_adapter "''hello''" 0 "()",
      THEN conjunct2, THEN conjunct2] h n
  have 1: "events_of (ChannelMessageSend_v1 demo_libs demo_adapter [] ''hello'' 0) =
        [Http_Do \<lparr>req_method = ''POST'', req_url = ServerURL demo_adapter @ ''/api/v4/posts'',
                  req_Authorization = ''Bearer '' @ BotToken demo_adapter,
                  req_Content_Type = Some ''application/json'',
                  req_body = Some \<lparr>json_channel_id = DefaultChannel demo_adapter,
                                    json_message = ''hello'', json_root_id = None\<rparr>\<rparr>]"
    and 2: "events_of (ChannelMessageSend_v2 demo_libs demo_adapter [] ''hello'' 0) =
        [Api_CreatePost \<lparr>Id_post = [], ChannelId = DefaultChannel demo_adapter, UserId = [],
                         Message = ''hello'', FileIds = [], RootId = []\<rparr>]"
    by simp_all
  from ChannelMessageSend_empty_channel[of demo_libs "demo_adapter\<lparr>DefaultChannel := []\<rparr>"
      "''hello''" 0 "()", THEN conjunct2, THEN conjunct2] e
  have 3: "ChannelMessageSend_v1 demo_libs (demo_adapter\<lparr>DefaultChannel := []\<rparr>) [] ''hello'' 0 =
        (Returned (Some Err_no_channel), [], 0)"
    and 4: "ChannelMessageSend_v2 demo_libs (demo_adapter\<lparr>DefaultChannel := []\<rparr>) [] ''hello'' 0 =
        (Returned (Some Err_no_channel), [], 0)"
    by blast+
  show ?thesis
    unfolding 1 2 3 4
    by (simp add: demo_adapter_def NewMessagePlatformFromMattermost_value_def)
qed

section \<open>C6: the command word\<close>



section \<open>C7: the self-filter\<close>

text \<open>
  Claim C7: for every inbound message whose sender is the adapter's own bot user,
  whatever its content, the dispatcher returns before any stage: it calls no handler,
  sends no reply, produces no event at all and leaves the world as it was.
\<close>

theorem self_message_ignored:
  assumes "Event ev = ''posted''" and "Data ev ''post'' = Some (Json_string postData)"
    and "json_Unmarshal_post L postData = Inr post"
    and "User s = Some user" and "UserId post = Id_user user"
  shows "handleWebSocketEvent_v1 L R s ev w = (Returned (), [], w) \<and>
         handleWebSocketEvent_v2 L R s ev w = (Returned (), [], w)"
  using assms
  by (simp add: handleWebSocketEvent_v1_def handleWebSocketEvent_v2_def
      handleWebSocketEvent_with_def ret_def)

text \<open>Claim C7 on the post of \<open>alice\<close>, received by an adapter whose bot user is \<open>alice\<close>.\<close>

theorem self_message_ignored_witness:
  "handleWebSocketEvent_v1 demo_libs demo_registry
     (demo_adapter\<lparr>User := Some \<lparr>Id_user = ''alice'', Username = ''a'', Email = []\<rparr>\<rparr>)
     demo_event 0 = (Returned (), [], 0) \<and>
   handleWebSocketEvent_v2 demo_libs demo_registry
     (demo_adapter\<lparr>User := Some \<lparr>Id_user = ''alice'', Username = ''a'', Email = []\<rparr>\<rparr>)
     demo_event 0 = (Returned (), [], 0)"
  using self_message_ignored[OF demo_dispatched(1-3),
      of "demo_adapter\<lparr>User := Some \<lparr>Id_user = ''alice'', Username = ''a'', Email = []\<rparr>\<rparr>"
         "\<lparr>Id_user = ''alice'', Username = ''a'', Email = []\<rparr>" demo_registry 0]
  by (simp add: demo_post_def)

section \<open>C8: every catchall handler runs once\<close>



section \<open>C9: a failed download skips one attachment\<close>



section \<open>C10: Send on a nil adapter\<close>

text \<open>
  Claim C10: for every text and every options bag, \<^verbatim>\<open>Send\<close> and \<^verbatim>\<open>SendWithOptions\<close>
  on a nil adapter pointer return at once: no panic, no send, no event, the world as it
  was.
\<close>

theorem nil_adapter_send_is_noop:
  "Send_v1 L None txt w = (Returned (), [], w) \<and>
   SendWithOptions_v1 L None txt options w = (Returned (), [], w) \<and>
   Send_v2 L None txt w = (Returned (), [], w) \<and>
   SendWithOptions_v2 L None txt options w = (Returned (), [], w)"
  by (simp add: Send_v1_def Send_v2_def SendWithOptions_v1_def SendWithOptions_v2_def ret_def)

end
